theory Spec2Isabelle
  imports Complex_Main "HOL-Library.Product_Lexorder"
begin

section \<open>Item similarity recommender (mrec/item_similarity/recommender.py)\<close>

text \<open>
  A shallow embedding of \<^verbatim>\<open>ItemSimilarityRecommender\<close>.

  Scores are modelled as exact real numbers: rounding, infinities and NaN of the
  machine floats are outside the model.  Counts and indices handed to the methods
  (\<^verbatim>\<open>max_items\<close>, \<^verbatim>\<open>max_similar_items\<close>, \<^verbatim>\<open>u\<close>, \<^verbatim>\<open>j\<close>,
  \<^verbatim>\<open>user_start\<close>, \<^verbatim>\<open>user_end\<close>, \<^verbatim>\<open>num_items\<close>) are natural numbers, so
  Python's negative indexing is outside the model as well.
\<close>

subsection \<open>Errors and results\<close>

text \<open>
  The exceptions the module can raise or let through.  \<^verbatim>\<open>AttributeError\<close> carries its
  message, because the recommendation methods re-raise it with a message of their own.
\<close>

datatype error = AttributeError string | IndexError | ValueError | TypeError

definition not_fitted_msg :: string where
  "not_fitted_msg = ''you must call fit() before trying to recommend items''"

text \<open>
  One entry of a recommendation list: \<^verbatim>\<open>(idx, score)\<close> when \<^verbatim>\<open>return_scores\<close> is
  true, the bare \<^verbatim>\<open>idx\<close> otherwise.
\<close>

datatype rec = Scored nat real | Bare nat

fun rec_item :: "rec \<Rightarrow> nat" where
  "rec_item (Scored i v) = i"
| "rec_item (Bare i) = i"

subsection \<open>Sparse matrices (scipy.sparse.csr_matrix)\<close>

text \<open>
  A CSR matrix is its number of columns and, for every row, the stored entries of the
  row as (column index, value) pairs in storage order: \<^verbatim>\<open>M[u].indices\<close> and
  \<^verbatim>\<open>M[u].data\<close> zipped.  A stored value may be zero, and the value of a cell is the sum
  of the entries stored for it.
\<close>

type_synonym score = real
type_synonym sparse_row = "(nat \<times> score) list"

record csr_matrix =
  ncols :: nat
  rows :: "sparse_row list"

definition nrows :: "csr_matrix \<Rightarrow> nat" where
  "nrows M = length (rows M)"

definition indices :: "sparse_row \<Rightarrow> nat list" where
  "indices row = map fst row"

definition data :: "sparse_row \<Rightarrow> score list" where
  "data row = map snd row"

definition value_at :: "sparse_row \<Rightarrow> nat \<Rightarrow> score" where
  "value_at row k = sum_list (map snd (filter (\<lambda>e. fst e = k) row))"

text \<open>\<^verbatim>\<open>M.toarray()\<close>: the dense matrix, row by row.\<close>

definition toarray :: "csr_matrix \<Rightarrow> score list list" where
  "toarray M = map (\<lambda>row. map (value_at row) [0..<ncols M]) (rows M)"

text \<open>\<^verbatim>\<open>M[u]\<close>: row \<open>u\<close>, or IndexError when there is no such row.\<close>

definition getrow :: "csr_matrix \<Rightarrow> nat \<Rightarrow> error + sparse_row" where
  "getrow M u = (if u < nrows M then Inr (rows M ! u) else Inl IndexError)"

text \<open>\<^verbatim>\<open>M[a:b,:]\<close>: the rows of a slice, clipped to the rows there are.\<close>

definition slice_rows :: "csr_matrix \<Rightarrow> nat \<Rightarrow> nat \<Rightarrow> sparse_row list" where
  "slice_rows M a b = take (b - a) (drop a (rows M))"

text \<open>
  The scalar product of a row of the similarity matrix with a row of the dataset, and
  whether the two rows have a stored column in common (only then does the sparse product
  store an entry).
\<close>

definition dot :: "sparse_row \<Rightarrow> sparse_row \<Rightarrow> score" where
  "dot srow x = sum_list (map (\<lambda>e. snd e * value_at x (fst e)) srow)"

definition overlaps :: "sparse_row \<Rightarrow> sparse_row \<Rightarrow> bool" where
  "overlaps srow x = list_ex (\<lambda>k. k \<in> set (indices x)) (indices srow)"

text \<open>
  \<^verbatim>\<open>(S * x.T).toarray().flatten()\<close> for a dataset row \<open>x\<close>: entry \<open>i\<close> is the scalar
  product of row \<open>i\<close> of \<open>S\<close> with \<open>x\<close>.
\<close>

definition project_dense :: "csr_matrix \<Rightarrow> sparse_row \<Rightarrow> score list" where
  "project_dense S x = map (\<lambda>srow. dot srow x) (rows S)"

text \<open>
  One row of \<^verbatim>\<open>D * S.T\<close>: the same scalar products, stored for the columns \<open>i\<close> where row
  \<open>i\<close> of \<open>S\<close> and the dataset row share a stored column.
\<close>

definition project_sparse :: "csr_matrix \<Rightarrow> sparse_row \<Rightarrow> sparse_row" where
  "project_sparse S x =
     map (\<lambda>i. (i, dot (rows S ! i) x))
       (filter (\<lambda>i. overlaps (rows S ! i) x) [0..<nrows S])"

text \<open>
  \<^verbatim>\<open>csr_matrix((data, idx), (M, N))\<close>: scipy rejects an index outside the shape with a
  ValueError; it sums the values given for one cell and stores each row sorted by column.
  The triplets are (row, column, value).
\<close>

type_synonym triplet = "int \<times> int \<times> score"

definition in_shape :: "nat \<Rightarrow> nat \<Rightarrow> triplet \<Rightarrow> bool" where
  "in_shape M N t = (case t of (r, c, v) \<Rightarrow> 0 \<le> r \<and> r < int M \<and> 0 \<le> c \<and> c < int N)"

definition row_entries :: "triplet list \<Rightarrow> nat \<Rightarrow> sparse_row" where
  "row_entries ts i = map (\<lambda>t. (nat (fst (snd t)), snd (snd t))) (filter (\<lambda>t. fst t = int i) ts)"

definition sum_duplicates :: "sparse_row \<Rightarrow> sparse_row" where
  "sum_duplicates es = map (\<lambda>c. (c, value_at es c)) (sort (remdups (indices es)))"

definition csr_from_coo :: "triplet list \<Rightarrow> nat \<Rightarrow> nat \<Rightarrow> error + csr_matrix" where
  "csr_from_coo ts M N =
     (if list_all (in_shape M N) ts
      then Inr \<lparr>ncols = N, rows = map (\<lambda>i. sum_duplicates (row_entries ts i)) [0..<M]\<rparr>
      else Inl ValueError)"

subsection \<open>The recommender\<close>

text \<open>
  The only state of the object is the attribute \<^verbatim>\<open>similarity_matrix\<close>; \<open>None\<close> is the
  object on which the attribute has not been set.
\<close>

record recommender =
  similarity_matrix :: "csr_matrix option"

definition unfitted :: recommender where
  "unfitted = \<lparr>similarity_matrix = None\<rparr>"

text \<open>
  \<^verbatim>\<open>compute_similarities(dataset, j)\<close> is the method a subclass supplies: a parameter of
  the model.  It returns the vector of similarity scores or raises.
  \<^verbatim>\<open>get_similar_items\<close> may pass it \<^verbatim>\<open>dataset=None\<close>.
\<close>

type_synonym strategy = "csr_matrix option \<Rightarrow> nat \<Rightarrow> error + score list"

subsubsection \<open>fit\<close>

text \<open>The three lists \<^verbatim>\<open>data\<close>, \<^verbatim>\<open>row\<close>, \<^verbatim>\<open>col\<close> that \<^verbatim>\<open>fit\<close> builds up.\<close>

type_synonym coo_lists = "score list \<times> nat list \<times> nat list"

text \<open>The inner loop: \<^verbatim>\<open>for k,v in enumerate(w): if v != 0: ...append...\<close>\<close>

fun append_nonzero :: "nat \<Rightarrow> (nat \<times> score) list \<Rightarrow> coo_lists \<Rightarrow> coo_lists" where
  "append_nonzero j [] acc = acc"
| "append_nonzero j ((k, v) # kvs) (dat, row, col) =
     (if v \<noteq> 0 then append_nonzero j kvs (dat @ [v], row @ [j], col @ [k])
      else append_nonzero j kvs (dat, row, col))"

text \<open>The outer loop over the items; an exception of the strategy leaves the loop.\<close>

fun fit_loop :: "strategy \<Rightarrow> csr_matrix \<Rightarrow> nat list \<Rightarrow> coo_lists \<Rightarrow> error + coo_lists" where
  "fit_loop cs dataset [] acc = Inr acc"
| "fit_loop cs dataset (j # js) acc =
     (case cs (Some dataset) j of
        Inl e \<Rightarrow> Inl e
      | Inr w \<Rightarrow> fit_loop cs dataset js (append_nonzero j (enumerate 0 w) acc))"

definition coo_triplets :: "coo_lists \<Rightarrow> triplet list" where
  "coo_triplets acc =
     (case acc of (dat, row, col) \<Rightarrow> zip (map int row) (zip (map int col) dat))"

text \<open>
  \<^verbatim>\<open>fit\<close> returns what the call did (an exception or nothing) and the object afterwards.
  The assignment to \<^verbatim>\<open>self.similarity_matrix\<close> is the last statement.  Wrapping the
  dataset into a \<^verbatim>\<open>fast_sparse_matrix\<close> changes no cell of it and is left out.
\<close>

definition fit :: "strategy \<Rightarrow> recommender \<Rightarrow> csr_matrix \<Rightarrow> (error + unit) \<times> recommender" where
  "fit cs self dataset =
     (let num_items = ncols dataset in
      case fit_loop cs dataset [0..<num_items] ([], [], []) of
        Inl e \<Rightarrow> (Inl e, self)
      | Inr acc \<Rightarrow>
          (case csr_from_coo (coo_triplets acc) num_items num_items of
             Inl e \<Rightarrow> (Inl e, self)
           | Inr S \<Rightarrow> (Inr (), self\<lparr>similarity_matrix := Some S\<rparr>)))"

subsubsection \<open>load_similarity_matrix\<close>

text \<open>
  \<open>y\<close> is the table \<^verbatim>\<open>np.loadtxt\<close> read, one (item, item, score) triplet per line, the
  two index fields being whole numbers.  \<^verbatim>\<open>loadtxt\<close> returns a one-dimensional array for
  a table of fewer than two lines, on which \<^verbatim>\<open>y[:,0]\<close> raises IndexError.
  \<open>shifted\<close> is \<^verbatim>\<open>np.array([row,col],dtype='int32')-offset\<close>, with the scores beside.
\<close>

definition shifted :: "triplet list \<Rightarrow> int \<Rightarrow> triplet list" where
  "shifted y offset = map (\<lambda>t. (fst t - offset, fst (snd t) - offset, snd (snd t))) y"

definition load_similarity_matrix ::
  "recommender \<Rightarrow> triplet list \<Rightarrow> nat \<Rightarrow> int \<Rightarrow> (error + unit) \<times> recommender" where
  "load_similarity_matrix self y num_items offset =
     (if length y < 2 then (Inl IndexError, self)
      else
        let idx = shifted y offset in
        case csr_from_coo idx num_items num_items of
          Inl e \<Rightarrow> (Inl e, self)
        | Inr S \<Rightarrow> (Inr (), self\<lparr>similarity_matrix := Some S\<rparr>))"

subsubsection \<open>get_similar_items\<close>

text \<open>
  \<^verbatim>\<open>w.argsort()\<close>: the indices of \<open>w\<close> by ascending value.  numpy leaves the order of
  equal values open; the model takes the stable order (ascending index among equal
  values), which is what numpy's default sort yields on an array of up to 16 entries.
\<close>

definition argsort :: "score list \<Rightarrow> nat list" where
  "argsort w = sort_key (\<lambda>i. w ! i) [0..<length w]"

text \<open>
  \<^verbatim>\<open>sorted(w, key=itemgetter(1), reverse=True)\<close>: Python's sort is stable, also with
  \<^verbatim>\<open>reverse=True\<close>, so entries of equal score keep their order.
\<close>

definition sorted_by_score_desc :: "(nat \<times> score) list \<Rightarrow> (nat \<times> score) list" where
  "sorted_by_score_desc w = sort_key (\<lambda>e. - snd e) w"

definition get_similar_items ::
  "strategy \<Rightarrow> recommender \<Rightarrow> nat \<Rightarrow> nat \<Rightarrow> csr_matrix option \<Rightarrow> error + (nat \<times> score) list" where
  "get_similar_items cs self j max_similar_items dataset =
     (case similarity_matrix self of
        Some S \<Rightarrow>
          (case getrow S j of
             Inl e \<Rightarrow> Inl e
           | Inr w \<Rightarrow>
               let sims = take max_similar_items (sorted_by_score_desc w)
               in Inr (filter (\<lambda>e. snd e > 0) sims))
      | None \<Rightarrow>
          (case cs dataset j of
             Inl e \<Rightarrow> Inl e
           | Inr w \<Rightarrow>
               Inr (map (\<lambda>i. (i, w ! i))
                     (filter (\<lambda>i. w ! i > 0) (take max_similar_items (rev (argsort w)))))))"

subsubsection \<open>recommend_items\<close>

text \<open>
  The loop \<^verbatim>\<open>for i in r.argsort()[::-1]\<close>: an item that is not known is appended, and
  the length is tested only after an item has been appended.
\<close>

fun recommend_loop ::
  "score list \<Rightarrow> nat set \<Rightarrow> nat \<Rightarrow> bool \<Rightarrow> nat list \<Rightarrow> rec list \<Rightarrow> rec list" where
  "recommend_loop r known_items max_items return_scores [] recs = recs"
| "recommend_loop r known_items max_items return_scores (i # is) recs =
     (if i \<notin> known_items then
        (let recs' = recs @ [if return_scores then Scored i (r ! i) else Bare i]
         in if length recs' \<ge> max_items then recs'
            else recommend_loop r known_items max_items return_scores is recs')
      else recommend_loop r known_items max_items return_scores is recs)"

definition recommend_items ::
  "recommender \<Rightarrow> csr_matrix \<Rightarrow> nat \<Rightarrow> nat \<Rightarrow> bool \<Rightarrow> error + rec list" where
  "recommend_items self dataset u max_items return_scores =
     (case similarity_matrix self of
        None \<Rightarrow> Inl (AttributeError not_fitted_msg)
      | Some S \<Rightarrow>
          (case getrow dataset u of
             Inl e \<Rightarrow> Inl e
           | Inr x \<Rightarrow>
               if ncols S \<noteq> ncols dataset then Inl ValueError
               else
                 let r = project_dense S x;
                     known_items = set (indices x)
                 in Inr (recommend_loop r known_items max_items return_scores
                           (rev (argsort r)) [])))"

subsubsection \<open>range_recommend_items and batch_recommend_items\<close>

text \<open>
  Modelled from the spec: \<^verbatim>\<open>_zero_known_item_scores\<close> is a method of
  \<^verbatim>\<open>BaseRecommender\<close>, whose source is not part of the module.  The spec (4.5, step 1):
  "zero out every entry in that user's Score Row at column indices that are non-zero in
  that user's Interaction Matrix row".  The columns of a user's row are the stored ones,
  \<^verbatim>\<open>dataset[u].indices\<close>, as in \<^verbatim>\<open>recommend_items\<close>.
\<close>

definition zero_known_row :: "sparse_row \<Rightarrow> sparse_row \<Rightarrow> sparse_row" where
  "zero_known_row ru train_row =
     map (\<lambda>e. (fst e, if fst e \<in> set (indices train_row) then 0 else snd e)) ru"

text \<open>
  Modelled from the spec: the same method on all the rows of the range, row \<open>ux\<close> of the
  scores being masked by row \<open>ux\<close> of \<^verbatim>\<open>dataset[user_start:user_end,:]\<close>.
\<close>

definition zero_known_item_scores :: "sparse_row list \<Rightarrow> sparse_row list \<Rightarrow> sparse_row list" where
  "zero_known_item_scores r train = map (\<lambda>p. zero_known_row (fst p) (snd p)) (zip r train)"

text \<open>
  The selection for one user:
  \<^verbatim>\<open>[(i,v) for v,i in sorted(izip(ru.data,ru.indices),reverse=True) if v > 0][:max_items]\<close>.
  The (value, index) tuples are compared lexicographically.
\<close>

definition select_row :: "sparse_row \<Rightarrow> nat \<Rightarrow> bool \<Rightarrow> rec list" where
  "select_row ru max_items return_scores =
     take max_items
       (map (\<lambda>p. if return_scores then Scored (snd p) (fst p) else Bare (snd p))
          (filter (\<lambda>p. fst p > 0) (rev (sort (zip (data ru) (indices ru))))))"

text \<open>
  The loop over the users of the range; \<^verbatim>\<open>r[ux,:]\<close> raises IndexError when \<open>r\<close> has no
  row \<open>ux\<close>.  Printing the progress does not touch the result and is left out.
\<close>

fun select_loop :: "sparse_row list \<Rightarrow> nat \<Rightarrow> nat \<Rightarrow> bool \<Rightarrow> nat list \<Rightarrow> error + rec list list" where
  "select_loop r user_start max_items return_scores [] = Inr []"
| "select_loop r user_start max_items return_scores (u # us) =
     (let ux = u - user_start in
      if ux < length r then
        (case select_loop r user_start max_items return_scores us of
           Inl e \<Rightarrow> Inl e
         | Inr recs \<Rightarrow> Inr (select_row (r ! ux) max_items return_scores # recs))
      else Inl IndexError)"

definition get_recommendations_from_predictions ::
  "sparse_row list \<Rightarrow> csr_matrix \<Rightarrow> nat \<Rightarrow> nat \<Rightarrow> nat \<Rightarrow> bool \<Rightarrow> error + rec list list" where
  "get_recommendations_from_predictions r dataset user_start user_end max_items return_scores =
     (let r' = zero_known_item_scores r (slice_rows dataset user_start user_end)
      in select_loop r' user_start max_items return_scores [user_start..<user_end])"

definition range_recommend_items ::
  "recommender \<Rightarrow> csr_matrix \<Rightarrow> nat \<Rightarrow> nat \<Rightarrow> nat \<Rightarrow> bool \<Rightarrow> error + rec list list" where
  "range_recommend_items self dataset user_start user_end max_items return_scores =
     (case similarity_matrix self of
        None \<Rightarrow> Inl (AttributeError not_fitted_msg)
      | Some S \<Rightarrow>
          if ncols dataset \<noteq> ncols S then Inl ValueError
          else
            let r = map (project_sparse S) (slice_rows dataset user_start user_end)
            in get_recommendations_from_predictions r dataset user_start user_end
                 max_items return_scores)"

definition batch_recommend_items ::
  "recommender \<Rightarrow> csr_matrix \<Rightarrow> nat \<Rightarrow> bool \<Rightarrow> error + rec list list" where
  "batch_recommend_items self dataset max_items return_scores =
     (case similarity_matrix self of
        None \<Rightarrow> Inl (AttributeError not_fitted_msg)
      | Some S \<Rightarrow>
          if ncols dataset \<noteq> ncols S then Inl ValueError
          else
            let r = map (project_sparse S) (rows dataset)
            in get_recommendations_from_predictions r dataset 0 (length r)
                 max_items return_scores)"

subsection \<open>Concrete instances\<close>

text \<open>
  The scenario of the spec: 3 users, 4 items, user 0 knows the items 0 and 2 with weight
  1; row 0 of the similarity matrix is [0, 0.8, 0.1, 0.0], row 2 is [0.3, 0.0, 0, 0.9] and
  the other rows are zero.  Only the non-zero cells are stored, as \<^verbatim>\<open>fit\<close> stores them.
\<close>

definition scenario_dataset :: csr_matrix where
  "scenario_dataset = \<lparr>ncols = 4, rows = [[(0, 1), (2, 1)], [], []]\<rparr>"

definition scenario_similarity :: csr_matrix where
  "scenario_similarity =
     \<lparr>ncols = 4, rows = [[(1, 8 / 10), (2, 1 / 10)], [], [(0, 3 / 10), (3, 9 / 10)], []]\<rparr>"

definition scenario_recommender :: recommender where
  "scenario_recommender = \<lparr>similarity_matrix = Some scenario_similarity\<rparr>"

text \<open>
  The same numbers as columns: column 0 of the similarity matrix is [0, 0.8, 0.1, 0.0]
  and column 2 is [0.3, 0.0, 0, 0.9].
\<close>

definition transposed_similarity :: csr_matrix where
  "transposed_similarity =
     \<lparr>ncols = 4, rows = [[(2, 3 / 10)], [(0, 8 / 10)], [(0, 1 / 10)], [(2, 9 / 10)]]\<rparr>"

definition transposed_recommender :: recommender where
  "transposed_recommender = \<lparr>similarity_matrix = Some transposed_similarity\<rparr>"

text \<open>
  Three items, of which 0 and 1 are similar to each other (0.5) and item 2 is similar
  to nothing; one user, who knows item 0.
\<close>

definition pair_similarity :: csr_matrix where
  "pair_similarity = \<lparr>ncols = 3, rows = [[(1, 1 / 2)], [(0, 1 / 2)], []]\<rparr>"

definition pair_recommender :: recommender where
  "pair_recommender = \<lparr>similarity_matrix = Some pair_similarity\<rparr>"

definition pair_dataset :: csr_matrix where
  "pair_dataset = \<lparr>ncols = 3, rows = [[(0, 1)]]\<rparr>"

text \<open>A similarity matrix whose row 0 holds two equal scores.\<close>

definition tie_similarity :: csr_matrix where
  "tie_similarity = \<lparr>ncols = 3, rows = [[(1, 1 / 2), (2, 1 / 2)], [], []]\<rparr>"

definition tie_recommender :: recommender where
  "tie_recommender = \<lparr>similarity_matrix = Some tie_similarity\<rparr>"

text \<open>
  Two strategies: one that returns the same vector for every item, and one that raises
  for item 1.
\<close>

definition constant_strategy :: "score list \<Rightarrow> strategy" where
  "constant_strategy w dataset j = Inr w"

definition failing_strategy :: strategy where
  "failing_strategy dataset j = (if j = 1 then Inl TypeError else Inr [0, 1 / 2, 0])"

text \<open>Orders of a list of (item, score) pairs by score.\<close>

definition descending :: "(nat \<times> score) list \<Rightarrow> bool" where
  "descending sims = sorted_wrt (\<lambda>a b. snd b \<le> snd a) sims"

definition strictly_descending :: "(nat \<times> score) list \<Rightarrow> bool" where
  "strictly_descending sims = sorted_wrt (\<lambda>a b. snd b < snd a) sims"

text \<open>
  The key by which the selection of the range and batch methods orders its entries: the
  tuple (score, index), compared lexicographically.
\<close>

fun rec_key :: "rec \<Rightarrow> score \<times> nat" where
  "rec_key (Scored i v) = (v, i)"
| "rec_key (Bare i) = (0, i)"

definition key_descending :: "rec list \<Rightarrow> bool" where
  "key_descending recs = sorted_wrt (\<lambda>a b. rec_key b < rec_key a) recs"

text \<open>
  The entry of one user in the lists of the range and batch methods, as the lemmas below
  show: the selection applied to the user's row of \<^verbatim>\<open>D * S.T\<close> after the known items
  have been zeroed.
\<close>

definition user_entry :: "csr_matrix \<Rightarrow> sparse_row \<Rightarrow> nat \<Rightarrow> bool \<Rightarrow> rec list" where
  "user_entry S x m rs = select_row (zero_known_row (project_sparse S x) x) m rs"

text \<open>
  The known items of user \<open>u\<close>: \<^verbatim>\<open>set(dataset[u].indices)\<close>, the columns stored in row
  \<open>u\<close>.  Every column whose cell is not zero is among them (lemma \<open>nonzero_known\<close>).
\<close>

definition known_items :: "csr_matrix \<Rightarrow> nat \<Rightarrow> nat set" where
  "known_items dataset u = set (indices (rows dataset ! u))"

text \<open>
  A similarity matrix under which the items 1 and 2 get the same score for a user who
  knows item 0.
\<close>

definition tie_scores_similarity :: csr_matrix where
  "tie_scores_similarity = \<lparr>ncols = 3, rows = [[], [(0, 1 / 2)], [(0, 1 / 2)]]\<rparr>"

definition tie_scores_recommender :: recommender where
  "tie_scores_recommender = \<lparr>similarity_matrix = Some tie_scores_similarity\<rparr>"

text \<open>A strategy for the path of \<^verbatim>\<open>get_similar_items\<close> without a similarity matrix.\<close>

definition fallback_strategy :: strategy where
  "fallback_strategy = constant_strategy [1 / 5, 0, 7 / 10, 7 / 10]"

text \<open>The matrix of the loading scenario of the spec.\<close>

definition loaded_similarity :: csr_matrix where
  "loaded_similarity = \<lparr>ncols = 3, rows = [[(1, 1 / 2)], [(0, 1 / 2)], []]\<rparr>"

text \<open>What \<^verbatim>\<open>fit\<close> builds from the strategy that returns [0, 0.5, 0] for each of 3 items.\<close>

definition constant_fit_similarity :: csr_matrix where
  "constant_fit_similarity = \<lparr>ncols = 3, rows = [[(1, 1 / 2)], [(1, 1 / 2)], [(1, 1 / 2)]]\<rparr>"

section \<open>Properties\<close>

lemmas eval_defs = recommend_items_def getrow_def nrows_def project_dense_def dot_def value_at_def
  indices_def argsort_def range_recommend_items_def batch_recommend_items_def
  get_recommendations_from_predictions_def slice_rows_def project_sparse_def overlaps_def
  zero_known_item_scores_def zero_known_row_def select_row_def data_def

subsection \<open>The loops\<close>

lemma zip_data_indices: "zip (data ru) (indices ru) = map (\<lambda>e. (snd e, fst e)) ru"
  by (induction ru) (simp_all add: data_def indices_def)

lemma recommend_loop_items:
  "rec_item ` set (recommend_loop r K m rs js recs) \<subseteq> rec_item ` set recs \<union> (set js - K)"
proof (induction js arbitrary: recs)
  case Nil
  then show ?case by simp
next
  case (Cons i js)
  show ?case
  proof (cases "i \<in> K")
    case True
    with Cons.IH [of recs] show ?thesis by auto
  next
    case False
    define e where "e = (if rs then Scored i (r ! i) else Bare i)"
    have item: "rec_item e = i" by (simp add: e_def)
    have step: "recommend_loop r K m rs (i # js) recs =
        (if m \<le> length (recs @ [e]) then recs @ [e] else recommend_loop r K m rs js (recs @ [e]))"
      using False by (simp add: Let_def e_def)
    show ?thesis
    proof (cases "m \<le> length (recs @ [e])")
      case True
      with step have "recommend_loop r K m rs (i # js) recs = recs @ [e]" by simp
      with item False show ?thesis by auto
    next
      case stop: False
      with step have "recommend_loop r K m rs (i # js) recs = recommend_loop r K m rs js (recs @ [e])"
        by simp
      moreover have "rec_item ` set (recs @ [e]) = insert i (rec_item ` set recs)"
        using item by auto
      ultimately show ?thesis using Cons.IH [of "recs @ [e]"] False by auto
    qed
  qed
qed

lemma select_row_member:
  assumes "e \<in> set (select_row ru m rs)"
  shows "\<exists>p\<in>set ru. fst p = rec_item e \<and> 0 < snd p"
proof -
  from assms have "e \<in> set (map (\<lambda>p. if rs then Scored (snd p) (fst p) else Bare (snd p))
          (filter (\<lambda>p. fst p > 0) (rev (sort (zip (data ru) (indices ru))))))"
    unfolding select_row_def by (rule in_set_takeD)
  then have "e \<in> (\<lambda>p. if rs then Scored (snd p) (fst p) else Bare (snd p)) `
      set (filter (\<lambda>p. fst p > 0) (rev (sort (zip (data ru) (indices ru)))))"
    by (simp only: set_map)
  then obtain p where pin: "p \<in> set (filter (\<lambda>p. fst p > 0) (rev (sort (zip (data ru) (indices ru)))))"
      and e: "e = (if rs then Scored (snd p) (fst p) else Bare (snd p))"
    by (rule imageE)
  from pin have p: "p \<in> set (zip (data ru) (indices ru))" "0 < fst p" by simp_all
  from p(1) obtain q where "q \<in> set ru" "p = (snd q, fst q)"
    by (auto simp: zip_data_indices)
  with p(2) e show ?thesis by (cases rs) auto
qed

lemma zero_known_row_positive:
  "p \<in> set (zero_known_row ru x) \<Longrightarrow> 0 < snd p \<Longrightarrow> fst p \<notin> set (indices x)"
  by (auto simp: zero_known_row_def split: if_splits)

lemma select_loop_entries:
  "select_loop r a m rs us = Inr rl \<Longrightarrow>
     length rl = length us \<and>
     (\<forall>k<length us. us ! k - a < length r \<and> rl ! k = select_row (r ! (us ! k - a)) m rs)"
proof (induction us arbitrary: rl)
  case Nil
  then show ?case by simp
next
  case (Cons u us)
  from Cons.prems have inr: "u - a < length r"
    by (auto simp: Let_def split: if_splits)
  with Cons.prems obtain rest where rest: "select_loop r a m rs us = Inr rest"
      and rl: "rl = select_row (r ! (u - a)) m rs # rest"
    by (auto simp: Let_def split: sum.splits)
  from Cons.IH [OF rest] have ih: "length rest = length us"
    "\<And>k. k < length us \<Longrightarrow> us ! k - a < length r \<and> rest ! k = select_row (r ! (us ! k - a)) m rs"
    by auto
  show ?case
  proof (intro conjI allI impI)
    show "length rl = length (u # us)" using rl ih(1) by simp
  next
    fix k assume "k < length (u # us)"
    then show "(u # us) ! k - a < length r" using inr ih(2) by (cases k) auto
  next
    fix k assume "k < length (u # us)"
    then show "rl ! k = select_row (r ! ((u # us) ! k - a)) m rs"
      using rl ih(2) by (cases k) auto
  qed
qed

lemma select_loop_total:
  "(\<forall>u\<in>set us. u - a < length r) \<Longrightarrow> \<exists>rl. select_loop r a m rs us = Inr rl"
  by (induction us) (auto simp: Let_def)

lemma predictions_entry:
  assumes "get_recommendations_from_predictions (map (project_sparse S) (slice_rows dataset a b))
             dataset a b m rs = Inr rl"
    and "a \<le> u" and "u < b"
  shows "u < nrows dataset \<and> length rl = b - a \<and> rl ! (u - a) = user_entry S (rows dataset ! u) m rs"
proof -
  let ?sub = "slice_rows dataset a b"
  let ?r' = "zero_known_item_scores (map (project_sparse S) ?sub) ?sub"
  from assms(1) have loop: "select_loop ?r' a m rs [a..<b] = Inr rl"
    by (simp add: get_recommendations_from_predictions_def Let_def)
  have len: "length ?r' = length ?sub" by (simp add: zero_known_item_scores_def)
  from assms(2,3) have k: "u - a < length [a..<b]" "[a..<b] ! (u - a) = u" by auto
  from select_loop_entries [OF loop] k
  have lrl: "length rl = b - a" and in_r: "u - a < length ?r'"
    and entry: "rl ! (u - a) = select_row (?r' ! (u - a)) m rs"
    by (auto simp del: length_upt nth_upt) (simp)
  from in_r len have in_sub: "u - a < length ?sub" by simp
  then have "u - a < length (drop a (rows dataset))" by (simp add: slice_rows_def)
  with assms(2) have u: "u < nrows dataset" by (simp add: nrows_def)
  from in_sub have "?sub ! (u - a) = drop a (rows dataset) ! (u - a)"
    by (simp add: slice_rows_def)
  also from u assms(2) have "\<dots> = rows dataset ! (a + (u - a))"
    by (simp add: nrows_def)
  finally have sub: "?sub ! (u - a) = rows dataset ! u"
    using assms(2) by simp
  from in_sub have "?r' ! (u - a) = zero_known_row (project_sparse S (?sub ! (u - a))) (?sub ! (u - a))"
    by (simp add: zero_known_item_scores_def)
  with sub entry u lrl show ?thesis by (simp add: user_entry_def)
qed

lemma range_entry:
  assumes "range_recommend_items self dataset a b m rs = Inr rl" and "a \<le> u" and "u < b"
  shows "\<exists>S. similarity_matrix self = Some S \<and> u < nrows dataset \<and> length rl = b - a \<and>
           rl ! (u - a) = user_entry S (rows dataset ! u) m rs"
proof -
  from assms(1) obtain S where S: "similarity_matrix self = Some S"
    by (auto simp: range_recommend_items_def split: option.splits)
  with assms(1) have "get_recommendations_from_predictions
      (map (project_sparse S) (slice_rows dataset a b)) dataset a b m rs = Inr rl"
    by (auto simp: range_recommend_items_def Let_def split: if_splits)
  from predictions_entry [OF this assms(2,3)] S show ?thesis by simp
qed

lemma slice_all: "slice_rows dataset 0 (length (rows dataset)) = rows dataset"
  by (simp add: slice_rows_def)

lemma batch_entry:
  assumes "batch_recommend_items self dataset m rs = Inr rl" and "u < nrows dataset"
  shows "\<exists>S. similarity_matrix self = Some S \<and> length rl = nrows dataset \<and>
           rl ! u = user_entry S (rows dataset ! u) m rs"
proof -
  from assms(1) obtain S where S: "similarity_matrix self = Some S"
    by (auto simp: batch_recommend_items_def split: option.splits)
  with assms(1) have "get_recommendations_from_predictions
      (map (project_sparse S) (slice_rows dataset 0 (nrows dataset))) dataset 0 (nrows dataset) m rs = Inr rl"
    by (auto simp: batch_recommend_items_def Let_def nrows_def slice_all split: if_splits)
  from predictions_entry [OF this, of u] assms(2) S show ?thesis by simp
qed

lemma user_entry_unknown:
  "e \<in> set (user_entry S x m rs) \<Longrightarrow> rec_item e \<notin> set (indices x)"
  unfolding user_entry_def
  by (metis select_row_member zero_known_row_positive)

subsection \<open>Known items\<close>

lemma nonzero_known: "value_at (rows dataset ! u) i \<noteq> 0 \<Longrightarrow> i \<in> known_items dataset u"
proof (rule ccontr)
  assume nz: "value_at (rows dataset ! u) i \<noteq> 0" and "i \<notin> known_items dataset u"
  then have "filter (\<lambda>e. fst e = i) (rows dataset ! u) = []"
    by (auto simp: known_items_def indices_def filter_empty_conv)
  with nz show False by (simp add: value_at_def)
qed

lemma recommend_items_unknown:
  assumes "recommend_items self dataset u m rs = Inr recs" and "e \<in> set recs"
  shows "rec_item e \<notin> known_items dataset u"
proof -
  from assms(1) obtain S where S: "similarity_matrix self = Some S"
    by (auto simp: recommend_items_def split: option.splits)
  from assms(1) S have u: "u < nrows dataset"
    by (auto simp: recommend_items_def getrow_def split: if_splits)
  let ?x = "rows dataset ! u"
  let ?r = "project_dense S ?x"
  from assms(1) S u
  have "recs = recommend_loop ?r (set (indices ?x)) m rs (rev (argsort ?r)) []"
    by (auto simp: recommend_items_def getrow_def Let_def split: if_splits)
  with recommend_loop_items [of ?r "set (indices ?x)" m rs "rev (argsort ?r)" "[]"] assms(2)
  show ?thesis by (auto simp: known_items_def)
qed

text \<open>
  Claim C1.  For every user \<open>u\<close> and dataset, no known item of \<open>u\<close> (a column stored in
  row \<open>u\<close> of the dataset, which includes every column whose cell is not zero) is among
  the items that \<^verbatim>\<open>recommend_items\<close> returns for \<open>u\<close>, nor among the items of the entry
  for \<open>u\<close> in the lists that \<^verbatim>\<open>range_recommend_items\<close> and
  \<^verbatim>\<open>batch_recommend_items\<close> return.
\<close>

theorem known_items_never_recommended:
  "(recommend_items self dataset u m rs = Inr recs \<longrightarrow> i \<in> known_items dataset u \<longrightarrow>
      i \<notin> rec_item ` set recs)
   \<and> (range_recommend_items self dataset a b m rs = Inr rl \<longrightarrow> a \<le> u \<longrightarrow> u < b \<longrightarrow>
      i \<in> known_items dataset u \<longrightarrow> i \<notin> rec_item ` set (rl ! (u - a)))
   \<and> (batch_recommend_items self dataset m rs = Inr bl \<longrightarrow> u < nrows dataset \<longrightarrow>
      i \<in> known_items dataset u \<longrightarrow> i \<notin> rec_item ` set (bl ! u))"
proof (intro conjI impI)
  assume "recommend_items self dataset u m rs = Inr recs" "i \<in> known_items dataset u"
  then show "i \<notin> rec_item ` set recs"
    using recommend_items_unknown by blast
next
  assume "range_recommend_items self dataset a b m rs = Inr rl" "a \<le> u" "u < b"
    and i: "i \<in> known_items dataset u"
  from range_entry [OF this(1-3)] obtain S
    where "rl ! (u - a) = user_entry S (rows dataset ! u) m rs" by blast
  with i show "i \<notin> rec_item ` set (rl ! (u - a))"
    using user_entry_unknown [of _ S "rows dataset ! u" m rs] by (auto simp: known_items_def)
next
  assume "batch_recommend_items self dataset m rs = Inr bl" "u < nrows dataset"
    and i: "i \<in> known_items dataset u"
  from batch_entry [OF this(1,2)] obtain S
    where "bl ! u = user_entry S (rows dataset ! u) m rs" by blast
  with i show "i \<notin> rec_item ` set (bl ! u)"
    using user_entry_unknown [of _ S "rows dataset ! u" m rs] by (auto simp: known_items_def)
qed

theorem known_items_never_recommended_witness:
  "recommend_items transposed_recommender scenario_dataset 0 2 True
      = Inr [Scored 3 (9 / 10), Scored 1 (8 / 10)]
   \<and> range_recommend_items transposed_recommender scenario_dataset 0 1 2 True
      = Inr [[Scored 3 (9 / 10), Scored 1 (8 / 10)]]
   \<and> batch_recommend_items transposed_recommender scenario_dataset 2 True
      = Inr [[Scored 3 (9 / 10), Scored 1 (8 / 10)], [], []]
   \<and> known_items scenario_dataset 0 = {0, 2}
   \<and> (2::nat) \<notin> rec_item ` set [Scored 3 (9 / 10), Scored 1 (8 / 10)]
   \<and> (2::nat) \<notin> rec_item ` set ([[Scored 3 (9 / 10), Scored 1 (8 / 10)]] ! (0 - 0))
   \<and> (2::nat) \<notin> rec_item ` set ([[Scored 3 (9 / 10), Scored 1 (8 / 10)], [], []] ! 0)"
proof -
  have single: "recommend_items transposed_recommender scenario_dataset 0 2 True
      = Inr [Scored 3 (9 / 10), Scored 1 (8 / 10)]"
    by (simp add: transposed_recommender_def transposed_similarity_def scenario_dataset_def eval_defs)
  have range: "range_recommend_items transposed_recommender scenario_dataset 0 1 2 True
      = Inr [[Scored 3 (9 / 10), Scored 1 (8 / 10)]]"
    by (simp add: transposed_recommender_def transposed_similarity_def scenario_dataset_def eval_defs)
  have batch: "batch_recommend_items transposed_recommender scenario_dataset 2 True
      = Inr [[Scored 3 (9 / 10), Scored 1 (8 / 10)], [], []]"
    by (simp add: transposed_recommender_def transposed_similarity_def scenario_dataset_def eval_defs)
  have known: "known_items scenario_dataset 0 = {0, 2}"
    by (auto simp: known_items_def scenario_dataset_def indices_def)
  have u: "(0::nat) < nrows scenario_dataset"
    by (simp add: nrows_def scenario_dataset_def)
  from known have mem: "2 \<in> known_items scenario_dataset 0" by simp
  note inst = known_items_never_recommended [of transposed_recommender scenario_dataset 0 2 True
      "[Scored 3 (9 / 10), Scored 1 (8 / 10)]" 2 0 1
      "[[Scored 3 (9 / 10), Scored 1 (8 / 10)]]"
      "[[Scored 3 (9 / 10), Scored 1 (8 / 10)], [], []]"]
  have c1: "(2::nat) \<notin> rec_item ` set [Scored 3 (9 / 10), Scored 1 (8 / 10)]"
    by (rule inst [THEN conjunct1, THEN mp, THEN mp, OF single mem])
  have c2: "(2::nat) \<notin> rec_item ` set ([[Scored 3 (9 / 10), Scored 1 (8 / 10)]] ! (0 - 0))"
    by (rule inst [THEN conjunct2, THEN conjunct1, THEN mp, THEN mp, THEN mp, THEN mp,
          OF range le_refl zero_less_one mem])
  have c3: "(2::nat) \<notin> rec_item ` set ([[Scored 3 (9 / 10), Scored 1 (8 / 10)], [], []] ! 0)"
    by (rule inst [THEN conjunct2, THEN conjunct2, THEN mp, THEN mp, THEN mp, OF batch u mem])
  show ?thesis
    by (rule conjI [OF single conjI [OF range conjI [OF batch conjI [OF known
          conjI [OF c1 conjI [OF c2 c3]]]]]])
qed

subsection \<open>Calls before fit\<close>

text \<open>
  Claim C6.  On an object that holds no similarity matrix, \<^verbatim>\<open>recommend_items\<close>,
  \<^verbatim>\<open>range_recommend_items\<close> and \<^verbatim>\<open>batch_recommend_items\<close> raise the AttributeError with
  the message "you must call fit() before trying to recommend items", whatever their
  other arguments are; none of them returns a list.
\<close>

theorem unfitted_raises:
  "similarity_matrix self = None \<Longrightarrow>
     recommend_items self dataset u m rs = Inl (AttributeError not_fitted_msg)
     \<and> range_recommend_items self dataset a b m rs = Inl (AttributeError not_fitted_msg)
     \<and> batch_recommend_items self dataset m rs = Inl (AttributeError not_fitted_msg)"
  by (simp add: recommend_items_def range_recommend_items_def batch_recommend_items_def)

theorem unfitted_raises_witness:
  "similarity_matrix unfitted = None
   \<and> recommend_items unfitted scenario_dataset 0 2 True = Inl (AttributeError not_fitted_msg)
   \<and> range_recommend_items unfitted scenario_dataset 0 3 2 True = Inl (AttributeError not_fitted_msg)
   \<and> batch_recommend_items unfitted scenario_dataset 2 True = Inl (AttributeError not_fitted_msg)"
proof -
  have h: "similarity_matrix unfitted = None" by (simp add: unfitted_def)
  from unfitted_raises [OF h, of scenario_dataset 0 2 True 0 3] h show ?thesis by simp
qed

subsection \<open>The scenario of the spec\<close>

text \<open>
  Claim C2, as stated: on the scenario (rows 0 and 2 of the similarity matrix as given),
  \<^verbatim>\<open>recommend_items(dataset, u=0, max_items=2, return_scores=True)\<close> returns
  [(3, 0.9), (1, 0.8)].  It does not: the score of item \<open>i\<close> is the sum of the cells
  \<open>S[i,k]\<close> over the known items \<open>k\<close>, so the raw scores are [0.1, 0, 0.3, 0].
\<close>

theorem scenario_rows_counterexample:
  "recommend_items scenario_recommender scenario_dataset 0 2 True
     \<noteq> Inr [Scored 3 (9 / 10), Scored 1 (8 / 10)]"
  by (simp add: scenario_recommender_def scenario_similarity_def scenario_dataset_def eval_defs)

text \<open>
  Claim C2, amended: with the given vectors as columns 0 and 2 of the similarity matrix
  (cell \<open>S[i,k]\<close> is the weight of known item \<open>k\<close> in the score of item \<open>i\<close>), the call
  returns exactly [(3, 0.9), (1, 0.8)].
\<close>

theorem scenario_columns:
  "recommend_items transposed_recommender scenario_dataset 0 2 True
     = Inr [Scored 3 (9 / 10), Scored 1 (8 / 10)]"
  by (simp add: transposed_recommender_def transposed_similarity_def scenario_dataset_def eval_defs)

subsection \<open>Scores that are not positive, and the bound on the length\<close>

text \<open>
  Claim C3 at a failing input.  Item 2 is similar to nothing and the user knows item 0:
  \<^verbatim>\<open>recommend_items\<close> returns item 2 with the score 0, which is not strictly positive.
\<close>

theorem zero_score_recommended:
  "recommend_items pair_recommender pair_dataset 0 10 True = Inr [Scored 1 (1 / 2), Scored 2 0]"
  by (simp add: pair_recommender_def pair_similarity_def pair_dataset_def eval_defs)

text \<open>
  Claim C5 at a failing input.  For the same user and arguments, the list of
  \<^verbatim>\<open>recommend_items\<close> has an entry that the entry of \<^verbatim>\<open>range_recommend_items\<close> and
  of \<^verbatim>\<open>batch_recommend_items\<close> for this user do not have.
\<close>

theorem single_differs_from_range_and_batch:
  "recommend_items pair_recommender pair_dataset 0 10 True = Inr [Scored 1 (1 / 2), Scored 2 0]
   \<and> range_recommend_items pair_recommender pair_dataset 0 1 10 True = Inr [[Scored 1 (1 / 2)]]
   \<and> batch_recommend_items pair_recommender pair_dataset 10 True = Inr [[Scored 1 (1 / 2)]]"
  by (simp add: pair_recommender_def pair_similarity_def pair_dataset_def eval_defs)

text \<open>
  Claim C7 at two failing inputs.  With \<^verbatim>\<open>max_items = 0\<close> the call returns one item,
  not the empty list; with \<^verbatim>\<open>max_items = 5\<close>, more than the one unknown item of
  positive score, it returns that item and item 2 with score 0 after it.
\<close>

theorem max_items_zero_and_padding:
  "recommend_items pair_recommender pair_dataset 0 0 True = Inr [Scored 1 (1 / 2)]
   \<and> recommend_items pair_recommender pair_dataset 0 5 True = Inr [Scored 1 (1 / 2), Scored 2 0]"
  by (simp add: pair_recommender_def pair_similarity_def pair_dataset_def eval_defs)

subsection \<open>Similar items\<close>

lemma descending_sorted_by_score: "descending (sorted_by_score_desc w)"
proof -
  have "sorted (map (\<lambda>e. - snd e) (sort_key (\<lambda>e. - snd e) w))" by (rule sorted_sort_key)
  then show ?thesis
    by (simp add: descending_def sorted_by_score_desc_def sorted_map)
qed

lemma descending_take: "descending sims \<Longrightarrow> descending (take k sims)"
  by (simp add: descending_def sorted_wrt_take)

lemma descending_filter: "descending sims \<Longrightarrow> descending (filter P sims)"
  by (simp add: descending_def sorted_wrt_filter)

lemma descending_argsort: "descending (map (\<lambda>i. (i, w ! i)) (rev (argsort w)))"
proof -
  have "sorted (map (\<lambda>i. w ! i) (argsort w))"
    unfolding argsort_def by (rule sorted_sort_key)
  then have "sorted_wrt (\<lambda>i k. w ! i \<le> w ! k) (argsort w)" by (simp add: sorted_map)
  then have "sorted_wrt (\<lambda>i k. w ! k \<le> w ! i) (rev (argsort w))"
    by (simp add: sorted_wrt_rev)
  then show ?thesis by (simp add: descending_def sorted_wrt_map)
qed

lemma fallback_list:
  "map (\<lambda>i. (i, w ! i)) (filter (\<lambda>i. w ! i > 0) (take k js))
     = filter (\<lambda>e. snd e > 0) (take k (map (\<lambda>i. (i, w ! i)) js))"
  by (simp add: take_map filter_map comp_def)

lemma similar_items_shape:
  assumes "descending full" and "sims = filter (\<lambda>e. snd e > 0) (take k full)"
  shows "length sims \<le> k \<and> descending sims \<and> (\<forall>e\<in>set sims. 0 < snd e)"
proof (intro conjI)
  have "length sims \<le> length (take k full)" unfolding assms(2) by (rule length_filter_le)
  then show "length sims \<le> k" by simp
  show "descending sims" unfolding assms(2)
    by (intro descending_filter descending_take assms(1))
  show "\<forall>e\<in>set sims. 0 < snd e" unfolding assms(2) by simp
qed

text \<open>
  Claim C4, as stated: the list of \<^verbatim>\<open>get_similar_items\<close> is sorted by score in strictly
  descending order.  It is not when two entries of the row have the same score: both are
  returned, one after the other.
\<close>

theorem similar_items_ties_counterexample:
  "get_similar_items fallback_strategy tie_recommender 0 2 None = Inr [(1, 1 / 2), (2, 1 / 2)]
   \<and> \<not> strictly_descending [(1, 1 / 2), (2, 1 / 2)]"
  by (simp add: get_similar_items_def tie_recommender_def tie_similarity_def
      sorted_by_score_desc_def strictly_descending_def getrow_def nrows_def)

text \<open>
  Claim C4, amended: for every item \<open>j\<close> and bound \<open>k\<close>, whenever
  \<^verbatim>\<open>get_similar_items(j, k)\<close> returns, it returns at most \<open>k\<close> (item, score) pairs, sorted
  by score in descending order in which equal scores may follow each other, and every
  score is strictly positive; both when a similarity matrix is held and when the
  similarities are computed on the fly by the strategy.
\<close>

theorem similar_items_bounded_descending_positive:
  assumes "get_similar_items cs self j k dataset = Inr sims"
  shows "length sims \<le> k \<and> descending sims \<and> (\<forall>e\<in>set sims. 0 < snd e)"
proof (cases "similarity_matrix self")
  case (Some S)
  with assms obtain w where "sims = filter (\<lambda>e. snd e > 0) (take k (sorted_by_score_desc w))"
    by (auto simp: get_similar_items_def Let_def split: sum.splits)
  with descending_sorted_by_score [of w] show ?thesis by (rule similar_items_shape)
next
  case None
  with assms obtain w where
    "sims = map (\<lambda>i. (i, w ! i)) (filter (\<lambda>i. w ! i > 0) (take k (rev (argsort w))))"
    by (auto simp: get_similar_items_def split: sum.splits)
  then have "sims = filter (\<lambda>e. snd e > 0) (take k (map (\<lambda>i. (i, w ! i)) (rev (argsort w))))"
    by (simp only: fallback_list)
  with descending_argsort [of w] show ?thesis by (rule similar_items_shape)
qed

theorem similar_items_bounded_descending_positive_witness:
  "get_similar_items fallback_strategy tie_recommender 0 2 None = Inr [(1, 1 / 2), (2, 1 / 2)]
   \<and> length [(1::nat, 1 / 2 :: real), (2, 1 / 2)] \<le> 2
   \<and> descending [(1, 1 / 2), (2, 1 / 2)]
   \<and> get_similar_items fallback_strategy unfitted 0 3 None
        = Inr [(3, 7 / 10), (2, 7 / 10), (0, 1 / 5)]
   \<and> length [(3::nat, 7 / 10 :: real), (2, 7 / 10), (0, 1 / 5)] \<le> 3
   \<and> descending [(3, 7 / 10), (2, 7 / 10), (0, 1 / 5)]"
proof -
  have held: "get_similar_items fallback_strategy tie_recommender 0 2 None
      = Inr [(1, 1 / 2), (2, 1 / 2)]"
    by (simp add: get_similar_items_def tie_recommender_def tie_similarity_def
        sorted_by_score_desc_def getrow_def nrows_def)
  have fallback: "get_similar_items fallback_strategy unfitted 0 3 None
      = Inr [(3, 7 / 10), (2, 7 / 10), (0, 1 / 5)]"
    by (simp add: get_similar_items_def unfitted_def fallback_strategy_def constant_strategy_def
        argsort_def upt_rec)
  note a = similar_items_bounded_descending_positive [OF held]
  note b = similar_items_bounded_descending_positive [OF fallback]
  show ?thesis
    by (rule conjI [OF held conjI [OF a [THEN conjunct1] conjI [OF a [THEN conjunct2, THEN conjunct1]
          conjI [OF fallback conjI [OF b [THEN conjunct1] b [THEN conjunct2, THEN conjunct1]]]]]])
qed

subsection \<open>Loading a similarity matrix\<close>

lemma csr_from_coo_shape:
  "csr_from_coo ts M N = Inr S \<Longrightarrow> nrows S = M \<and> ncols S = N"
  by (auto simp: csr_from_coo_def nrows_def split: if_splits)

lemma load_example:
  "load_similarity_matrix self [(1, 2, 1 / 2), (2, 1, 1 / 2)] 3 1
     = (Inr (), self\<lparr>similarity_matrix := Some loaded_similarity\<rparr>)"
  by (simp add: load_similarity_matrix_def csr_from_coo_def in_shape_def row_entries_def
      sum_duplicates_def loaded_similarity_def indices_def value_at_def upt_rec shifted_def)

lemma load_shape:
  assumes "load_similarity_matrix self y n offset = (Inr (), self')"
  shows "\<exists>S. similarity_matrix self' = Some S \<and> nrows S = n \<and> ncols S = n"
proof -
  from assms have len: "\<not> length y < 2"
    by (auto simp: load_similarity_matrix_def)
  with assms obtain S where S: "csr_from_coo (shifted y offset) n n = Inr S"
      and self': "self' = self\<lparr>similarity_matrix := Some S\<rparr>"
    by (auto simp: load_similarity_matrix_def Let_def split: sum.splits)
  from csr_from_coo_shape [OF S] self' show ?thesis by simp
qed

lemma load_succeeds:
  assumes "2 \<le> length y" and "list_all (in_shape n n) (shifted y offset)"
  shows "\<exists>self'. load_similarity_matrix self y n offset = (Inr (), self')"
  using assms
  by (simp add: load_similarity_matrix_def Let_def csr_from_coo_def)

text \<open>
  Claim C8.  \<^verbatim>\<open>load_similarity_matrix\<close> on the table [(1,2,0.5),(2,1,0.5)] with
  \<^verbatim>\<open>offset=1\<close> and \<^verbatim>\<open>num_items=3\<close> installs a matrix of shape 3 x 3 whose cells (0,1) and
  (1,0) are 0.5 and whose other cells, all of row 2 and column 2 among them, are zero.
  In general: a table of at least two lines whose shifted indices lie inside the shape is
  loaded, and whenever a table is loaded the installed matrix has the shape
  (\<^verbatim>\<open>num_items\<close>, \<^verbatim>\<open>num_items\<close>), whatever the largest index of the table is.
\<close>

theorem load_similarity_matrix_shape:
  "load_similarity_matrix self [(1, 2, 1 / 2), (2, 1, 1 / 2)] 3 1
     = (Inr (), self\<lparr>similarity_matrix := Some loaded_similarity\<rparr>)
   \<and> nrows loaded_similarity = 3 \<and> ncols loaded_similarity = 3
   \<and> toarray loaded_similarity = [[0, 1 / 2, 0], [1 / 2, 0, 0], [0, 0, 0]]
   \<and> (2 \<le> length y \<and> list_all (in_shape n n) (shifted y offset) \<longrightarrow>
        (\<exists>self'. load_similarity_matrix self y n offset = (Inr (), self')))
   \<and> (load_similarity_matrix self y n offset = (Inr (), self') \<longrightarrow>
        (\<exists>S. similarity_matrix self' = Some S \<and> nrows S = n \<and> ncols S = n))"
proof (intro conjI impI)
  show "load_similarity_matrix self [(1, 2, 1 / 2), (2, 1, 1 / 2)] 3 1
     = (Inr (), self\<lparr>similarity_matrix := Some loaded_similarity\<rparr>)"
    by (rule load_example)
  show "nrows loaded_similarity = 3" by (simp add: nrows_def loaded_similarity_def)
  show "ncols loaded_similarity = 3" by (simp add: loaded_similarity_def)
  show "toarray loaded_similarity = [[0, 1 / 2, 0], [1 / 2, 0, 0], [0, 0, 0]]"
    by (simp add: toarray_def loaded_similarity_def value_at_def upt_rec)
next
  assume "2 \<le> length y \<and> list_all (in_shape n n) (shifted y offset)"
  then show "\<exists>self'. load_similarity_matrix self y n offset = (Inr (), self')"
    using load_succeeds by blast
next
  assume "load_similarity_matrix self y n offset = (Inr (), self')"
  then show "\<exists>S. similarity_matrix self' = Some S \<and> nrows S = n \<and> ncols S = n"
    by (rule load_shape)
qed

theorem load_similarity_matrix_shape_witness:
  "2 \<le> length [(1::int, 2::int, 1 / 2 :: real), (2, 1, 1 / 2)]
   \<and> list_all (in_shape 5 5) (shifted [(1, 2, 1 / 2), (2, 1, 1 / 2)] 1)
   \<and> load_similarity_matrix unfitted [(1, 2, 1 / 2), (2, 1, 1 / 2)] 5 1
     = (Inr (), \<lparr>similarity_matrix = Some \<lparr>ncols = 5, rows = [[(1, 1 / 2)], [(0, 1 / 2)], [], [], []]\<rparr>\<rparr>)
   \<and> nrows \<lparr>ncols = 5, rows = [[(1, 1 / 2)], [(0, 1 / 2)], [], [], []]\<rparr> = 5"
proof -
  let ?S = "\<lparr>ncols = 5, rows = [[(1::nat, 1 / 2 :: real)], [(0, 1 / 2)], [], [], []]\<rparr>"
  let ?y = "[(1::int, 2::int, 1 / 2 :: real), (2, 1, 1 / 2)]"
  note inst = load_similarity_matrix_shape [of unfitted ?y 5 1 "\<lparr>similarity_matrix = Some ?S\<rparr>"]
  have len: "2 \<le> length ?y" by simp
  have shape: "list_all (in_shape 5 5) (shifted ?y 1)"
    by (simp add: in_shape_def shifted_def)
  from inst [THEN conjunct2, THEN conjunct2, THEN conjunct2, THEN conjunct2, THEN conjunct1,
      THEN mp, OF conjI [OF len shape]]
  obtain self' where "load_similarity_matrix unfitted ?y 5 1 = (Inr (), self')" by blast
  have run: "load_similarity_matrix unfitted ?y 5 1 = (Inr (), \<lparr>similarity_matrix = Some ?S\<rparr>)"
    by (simp add: load_similarity_matrix_def csr_from_coo_def in_shape_def row_entries_def
      sum_duplicates_def indices_def value_at_def upt_rec unfitted_def shifted_def)
  from inst [THEN conjunct2, THEN conjunct2, THEN conjunct2, THEN conjunct2, THEN conjunct2,
      THEN mp, OF run]
  obtain S where "similarity_matrix \<lparr>similarity_matrix = Some ?S\<rparr> = Some S" "nrows S = 5"
    by blast
  then have rows: "nrows ?S = 5" by simp
  show ?thesis by (rule conjI [OF len conjI [OF shape conjI [OF run rows]]])
qed

subsection \<open>fit\<close>

lemma fit_loop_error:
  "fit_loop cs dataset js acc = Inl e \<Longrightarrow> \<exists>j\<in>set js. cs (Some dataset) j = Inl e"
proof (induction js arbitrary: acc)
  case Nil
  then show ?case by simp
next
  case (Cons j js)
  show ?case
  proof (cases "cs (Some dataset) j")
    case (Inl e')
    with Cons.prems show ?thesis by simp
  next
    case (Inr w)
    with Cons.prems have "fit_loop cs dataset js (append_nonzero j (enumerate 0 w) acc) = Inl e"
      by simp
    from Cons.IH [OF this] show ?thesis by auto
  qed
qed

lemma fit_loop_fails:
  "j \<in> set js \<Longrightarrow> cs (Some dataset) j = Inl e \<Longrightarrow> \<exists>e'. fit_loop cs dataset js acc = Inl e'"
proof (induction js arbitrary: acc)
  case Nil
  then show ?case by simp
next
  case (Cons i js)
  show ?case
  proof (cases "cs (Some dataset) i")
    case (Inl e')
    then show ?thesis by simp
  next
    case (Inr w)
    with Cons.prems have "j \<in> set js" by auto
    from Cons.IH [OF this Cons.prems(2)] Inr show ?thesis by simp
  qed
qed

lemma fit_failure:
  assumes "j < ncols dataset" and "cs (Some dataset) j = Inl e"
  shows "\<exists>e' j'. j' < ncols dataset \<and> cs (Some dataset) j' = Inl e' \<and>
           fit cs self dataset = (Inl e', self)"
proof -
  from assms(1) have "j \<in> set [0..<ncols dataset]" by simp
  with assms(2) fit_loop_fails [of j "[0..<ncols dataset]" cs dataset e "([], [], [])"] obtain e'
    where loop: "fit_loop cs dataset [0..<ncols dataset] ([], [], []) = Inl e'" by blast
  from fit_loop_error [OF loop] obtain j'
    where "j' < ncols dataset" "cs (Some dataset) j' = Inl e'" by auto
  moreover from loop have "fit cs self dataset = (Inl e', self)"
    by (simp add: fit_def)
  ultimately show ?thesis by blast
qed

lemma fit_outcome:
  assumes "fit cs self dataset = (res, self')"
  shows "(\<exists>e'. res = Inl e' \<and> self' = self) \<or>
         (res = Inr () \<and> (\<exists>S. self' = self\<lparr>similarity_matrix := Some S\<rparr> \<and>
             nrows S = ncols dataset \<and> ncols S = ncols dataset))"
proof (cases "fit_loop cs dataset [0..<ncols dataset] ([], [], [])")
  case (Inl e)
  with assms show ?thesis by (auto simp: fit_def)
next
  case (Inr acc)
  show ?thesis
  proof (cases "csr_from_coo (coo_triplets acc) (ncols dataset) (ncols dataset)")
    case (Inl e)
    with Inr assms show ?thesis by (auto simp: fit_def)
  next
    case inr: (Inr S)
    from csr_from_coo_shape [OF inr] Inr inr assms show ?thesis
      by (auto simp: fit_def)
  qed
qed

lemma fit_example:
  "fit (constant_strategy [0, 1 / 2, 0]) pair_recommender pair_dataset
     = (Inr (), pair_recommender\<lparr>similarity_matrix := Some constant_fit_similarity\<rparr>)"
  by (simp add: fit_def constant_strategy_def pair_dataset_def upt_rec enumerate_eq_zip
      coo_triplets_def csr_from_coo_def in_shape_def row_entries_def sum_duplicates_def
      indices_def value_at_def constant_fit_similarity_def)

text \<open>
  Claim C9.  If \<^verbatim>\<open>compute_similarities\<close> raises for an item during \<^verbatim>\<open>fit(dataset)\<close>,
  the call ends with an exception that the strategy raised for an item, and the object is
  as it was before the call: no matrix built in part is installed and a matrix held before
  is still held.  Every call of \<^verbatim>\<open>fit\<close> either raises and leaves the object unchanged, or
  returns and has replaced the similarity matrix by one of shape
  (\<^verbatim>\<open>num_items\<close>, \<^verbatim>\<open>num_items\<close>).
\<close>

theorem fit_atomic:
  "(j < ncols dataset \<and> cs (Some dataset) j = Inl e \<longrightarrow>
      (\<exists>e' j'. j' < ncols dataset \<and> cs (Some dataset) j' = Inl e' \<and>
         fit cs self dataset = (Inl e', self)))
   \<and> (fit cs self dataset = (res, self') \<longrightarrow>
      (\<exists>e'. res = Inl e' \<and> self' = self) \<or>
      (res = Inr () \<and> (\<exists>S. self' = self\<lparr>similarity_matrix := Some S\<rparr> \<and>
          nrows S = ncols dataset \<and> ncols S = ncols dataset)))"
  using fit_failure [of j dataset cs e self] fit_outcome [of cs self dataset res self']
  by blast

theorem fit_atomic_witness:
  "(1::nat) < ncols pair_dataset
   \<and> failing_strategy (Some pair_dataset) 1 = Inl TypeError
   \<and> similarity_matrix pair_recommender = Some pair_similarity
   \<and> fit failing_strategy pair_recommender pair_dataset = (Inl TypeError, pair_recommender)
   \<and> fit (constant_strategy [0, 1 / 2, 0]) pair_recommender pair_dataset
       = (Inr (), pair_recommender\<lparr>similarity_matrix := Some constant_fit_similarity\<rparr>)
   \<and> nrows constant_fit_similarity = ncols pair_dataset"
proof -
  have item: "(1::nat) < ncols pair_dataset" by (simp add: pair_dataset_def)
  have raises: "failing_strategy (Some pair_dataset) 1 = Inl TypeError"
    by (simp add: failing_strategy_def)
  have held: "similarity_matrix pair_recommender = Some pair_similarity"
    by (simp add: pair_recommender_def)
  from fit_atomic [of 1 pair_dataset failing_strategy TypeError pair_recommender, THEN conjunct1,
      THEN mp, OF conjI [OF item raises]]
  obtain e' j' where j': "failing_strategy (Some pair_dataset) j' = Inl e'"
    and run: "fit failing_strategy pair_recommender pair_dataset = (Inl e', pair_recommender)"
    by blast
  from j' have "e' = TypeError" by (simp add: failing_strategy_def split: if_splits)
  with run have failed:
    "fit failing_strategy pair_recommender pair_dataset = (Inl TypeError, pair_recommender)"
    by simp
  note fitted = fit_example
  from fit_atomic [of _ pair_dataset "constant_strategy [0, 1 / 2, 0]" _ pair_recommender "Inr ()"
      "pair_recommender\<lparr>similarity_matrix := Some constant_fit_similarity\<rparr>", THEN conjunct2,
      THEN mp, OF fitted]
  obtain S where "pair_recommender\<lparr>similarity_matrix := Some constant_fit_similarity\<rparr>
        = pair_recommender\<lparr>similarity_matrix := Some S\<rparr>"
    and "nrows S = ncols pair_dataset"
    by blast
  then have shape: "nrows constant_fit_similarity = ncols pair_dataset"
    by (simp add: pair_recommender_def)
  show ?thesis
    by (rule conjI [OF item conjI [OF raises conjI [OF held conjI [OF failed conjI [OF fitted shape]]]]])
qed

subsection \<open>The order of the selection\<close>

lemma select_row_key_descending:
  assumes "distinct (indices ru)"
  shows "key_descending (select_row ru m True)"
proof -
  let ?zs = "zip (data ru) (indices ru)"
  have "map snd ?zs = map fst ru" by (simp add: zip_data_indices comp_def)
  with assms have "distinct (map snd ?zs)" by (simp add: indices_def)
  then have "distinct ?zs" by (simp add: distinct_map)
  then have "sorted_wrt (<) (sort ?zs)"
    by (simp add: strict_sorted_iff)
  then have "sorted_wrt (\<lambda>p q. q < p) (rev (sort ?zs))"
    by (simp add: sorted_wrt_rev)
  then have "sorted_wrt (\<lambda>p q. q < p) (filter (\<lambda>p. fst p > 0) (rev (sort ?zs)))"
    by (rule sorted_wrt_filter)
  then have "sorted_wrt (\<lambda>a b. rec_key b < rec_key a)
      (map (\<lambda>p. Scored (snd p) (fst p)) (filter (\<lambda>p. fst p > 0) (rev (sort ?zs))))"
    by (simp add: sorted_wrt_map)
  then show ?thesis
    by (simp add: key_descending_def select_row_def sorted_wrt_take)
qed

lemma select_row_items:
  "map rec_item (select_row ru m rs) = map rec_item (select_row ru m True)"
  by (simp add: select_row_def take_map comp_def)

lemma distinct_masked_projection:
  "distinct (indices (zero_known_row (project_sparse S x) x))"
proof -
  have "indices (zero_known_row (project_sparse S x) x)
      = filter (\<lambda>i. overlaps (rows S ! i) x) [0..<nrows S]"
    by (simp add: indices_def zero_known_row_def project_sparse_def comp_def)
  then show ?thesis by simp
qed

lemma user_entry_key_descending: "key_descending (user_entry S x m True)"
  unfolding user_entry_def
  by (rule select_row_key_descending) (rule distinct_masked_projection)

lemma user_entry_items:
  "map rec_item (user_entry S x m rs) = map rec_item (user_entry S x m True)"
  unfolding user_entry_def by (rule select_row_items)

text \<open>
  Claim C10.  The entry of a user in the lists of \<^verbatim>\<open>range_recommend_items\<close> and
  \<^verbatim>\<open>batch_recommend_items\<close> is the selection applied to the user's score row with the
  known items masked, so it is a function of these two; with scores it is strictly
  descending in the tuple (score, index), that is, by score and among equal scores by
  item index descending; without scores it lists the same items in the same order.
\<close>

theorem ties_by_index_descending:
  "(range_recommend_items self dataset a b m rs = Inr rl \<longrightarrow> a \<le> u \<longrightarrow> u < b \<longrightarrow>
      (\<exists>S. similarity_matrix self = Some S
         \<and> rl ! (u - a) = user_entry S (rows dataset ! u) m rs
         \<and> (rs \<longrightarrow> key_descending (rl ! (u - a)))
         \<and> map rec_item (rl ! (u - a)) = map rec_item (user_entry S (rows dataset ! u) m True)
         \<and> key_descending (user_entry S (rows dataset ! u) m True)))
   \<and> (batch_recommend_items self dataset m rs = Inr bl \<longrightarrow> u < nrows dataset \<longrightarrow>
      (\<exists>S. similarity_matrix self = Some S
         \<and> bl ! u = user_entry S (rows dataset ! u) m rs
         \<and> (rs \<longrightarrow> key_descending (bl ! u))
         \<and> map rec_item (bl ! u) = map rec_item (user_entry S (rows dataset ! u) m True)
         \<and> key_descending (user_entry S (rows dataset ! u) m True)))"
proof (intro conjI impI)
  assume "range_recommend_items self dataset a b m rs = Inr rl" "a \<le> u" "u < b"
  from range_entry [OF this] obtain S where S: "similarity_matrix self = Some S"
    and entry: "rl ! (u - a) = user_entry S (rows dataset ! u) m rs" by blast
  from entry have "rs \<longrightarrow> key_descending (rl ! (u - a))"
    by (auto simp: user_entry_key_descending)
  with S entry user_entry_items [of S "rows dataset ! u" m rs]
    user_entry_key_descending [of S "rows dataset ! u" m]
  show "\<exists>S. similarity_matrix self = Some S
         \<and> rl ! (u - a) = user_entry S (rows dataset ! u) m rs
         \<and> (rs \<longrightarrow> key_descending (rl ! (u - a)))
         \<and> map rec_item (rl ! (u - a)) = map rec_item (user_entry S (rows dataset ! u) m True)
         \<and> key_descending (user_entry S (rows dataset ! u) m True)"
    by simp
next
  assume "batch_recommend_items self dataset m rs = Inr bl" "u < nrows dataset"
  from batch_entry [OF this] obtain S where S: "similarity_matrix self = Some S"
    and entry: "bl ! u = user_entry S (rows dataset ! u) m rs" by blast
  from entry have "rs \<longrightarrow> key_descending (bl ! u)"
    by (auto simp: user_entry_key_descending)
  with S entry user_entry_items [of S "rows dataset ! u" m rs]
    user_entry_key_descending [of S "rows dataset ! u" m]
  show "\<exists>S. similarity_matrix self = Some S
         \<and> bl ! u = user_entry S (rows dataset ! u) m rs
         \<and> (rs \<longrightarrow> key_descending (bl ! u))
         \<and> map rec_item (bl ! u) = map rec_item (user_entry S (rows dataset ! u) m True)
         \<and> key_descending (user_entry S (rows dataset ! u) m True)"
    by simp
qed

theorem ties_by_index_descending_witness:
  "range_recommend_items tie_scores_recommender pair_dataset 0 1 10 True
     = Inr [[Scored 2 (1 / 2), Scored 1 (1 / 2)]]
   \<and> key_descending ([[Scored 2 (1 / 2), Scored 1 (1 / 2)]] ! (0 - 0))
   \<and> batch_recommend_items tie_scores_recommender pair_dataset 10 False = Inr [[Bare 2, Bare 1]]
   \<and> map rec_item ([[Bare 2, Bare 1]] ! 0)
       = map rec_item (user_entry tie_scores_similarity (rows pair_dataset ! 0) 10 True)"
proof -
  have range: "range_recommend_items tie_scores_recommender pair_dataset 0 1 10 True
     = Inr [[Scored 2 (1 / 2), Scored 1 (1 / 2)]]"
    by (simp add: tie_scores_recommender_def tie_scores_similarity_def pair_dataset_def eval_defs)
  have batch: "batch_recommend_items tie_scores_recommender pair_dataset 10 False
     = Inr [[Bare 2, Bare 1]]"
    by (simp add: tie_scores_recommender_def tie_scores_similarity_def pair_dataset_def eval_defs)
  have u: "(0::nat) < nrows pair_dataset" by (simp add: nrows_def pair_dataset_def)
  have S: "similarity_matrix tie_scores_recommender = Some tie_scores_similarity"
    by (simp add: tie_scores_recommender_def)
  from ties_by_index_descending [of tie_scores_recommender pair_dataset 0 1 10 True
      "[[Scored 2 (1 / 2), Scored 1 (1 / 2)]]" 0, THEN conjunct1, THEN mp, THEN mp, THEN mp,
      OF range le_refl zero_less_one]
  have ordered: "key_descending ([[Scored 2 (1 / 2), Scored 1 (1 / 2)]] ! (0 - 0))"
    by blast
  from ties_by_index_descending [of tie_scores_recommender pair_dataset _ _ 10 False _ 0
      "[[Bare 2, Bare 1]]", THEN conjunct2, THEN mp, THEN mp, OF batch u]
  obtain S' where S': "similarity_matrix tie_scores_recommender = Some S'"
    and same: "map rec_item ([[Bare 2, Bare 1]] ! 0)
       = map rec_item (user_entry S' (rows pair_dataset ! 0) 10 True)"
    by blast
  from S S' have "S' = tie_scores_similarity" by simp
  with same have items: "map rec_item ([[Bare 2, Bare 1]] ! 0)
       = map rec_item (user_entry tie_scores_similarity (rows pair_dataset ! 0) 10 True)"
    by simp
  show ?thesis by (rule conjI [OF range conjI [OF ordered conjI [OF batch items]]])
qed


subsection \<open>The range and batch methods agree\<close>

text \<open>
  The entry of a user in the list of \<^verbatim>\<open>range_recommend_items\<close> is the entry of the user
  in the list of \<^verbatim>\<open>batch_recommend_items\<close>, and the scores of both are positive.
\<close>

lemma range_batch_agree:
  assumes "range_recommend_items self dataset a b m rs = Inr rl"
    and "batch_recommend_items self dataset m rs = Inr bl"
    and "a \<le> u" and "u < b"
  shows "rl ! (u - a) = bl ! u"
proof -
  from range_entry [OF assms(1,3,4)] obtain S where S: "similarity_matrix self = Some S"
    and u: "u < nrows dataset"
    and r: "rl ! (u - a) = user_entry S (rows dataset ! u) m rs" by blast
  from batch_entry [OF assms(2) u] obtain S' where "similarity_matrix self = Some S'"
    and "bl ! u = user_entry S' (rows dataset ! u) m rs" by blast
  with S r show ?thesis by simp
qed

lemma user_entry_positive:
  assumes "Scored i v \<in> set (user_entry S x m rs)"
  shows "0 < v"
proof -
  from assms have "Scored i v \<in> set (map (\<lambda>p. if rs then Scored (snd p) (fst p) else Bare (snd p))
      (filter (\<lambda>p. fst p > 0)
        (rev (sort (zip (data (zero_known_row (project_sparse S x) x))
                        (indices (zero_known_row (project_sparse S x) x)))))))"
    unfolding user_entry_def select_row_def by (rule in_set_takeD)
  then show ?thesis by (auto split: if_splits)
qed

subsection \<open>When the recommendation methods return\<close>

text \<open>
  On an object that holds a similarity matrix of the width of the dataset, each method
  returns a list for every user, and range, of the dataset.
\<close>

lemma recommend_items_returns:
  assumes "similarity_matrix self = Some S" and "u < nrows dataset" and "ncols S = ncols dataset"
  shows "\<exists>recs. recommend_items self dataset u m rs = Inr recs"
  using assms by (simp add: recommend_items_def getrow_def Let_def)

lemma range_returns:
  assumes "similarity_matrix self = Some S" and "ncols dataset = ncols S"
    and "b \<le> nrows dataset"
  shows "\<exists>rl. range_recommend_items self dataset a b m rs = Inr rl"
proof -
  let ?sub = "slice_rows dataset a b"
  let ?r' = "zero_known_item_scores (map (project_sparse S) ?sub) ?sub"
  from assms(3) have "length ?r' = b - a"
    by (simp add: zero_known_item_scores_def slice_rows_def nrows_def)
  then have "\<forall>u\<in>set [a..<b]. u - a < length ?r'" by auto
  from select_loop_total [OF this] obtain rl
    where "select_loop ?r' a m rs [a..<b] = Inr rl" by blast
  with assms(1,2) show ?thesis
    by (simp add: range_recommend_items_def get_recommendations_from_predictions_def Let_def)
qed

lemma batch_returns:
  assumes "similarity_matrix self = Some S" and "ncols dataset = ncols S"
  shows "\<exists>bl. batch_recommend_items self dataset m rs = Inr bl"
proof -
  let ?n = "length (rows dataset)"
  let ?sub = "slice_rows dataset 0 ?n"
  let ?r' = "zero_known_item_scores (map (project_sparse S) (rows dataset)) ?sub"
  have "length ?r' = ?n" by (simp add: zero_known_item_scores_def slice_all)
  then have "\<forall>u\<in>set [0..<?n]. u - 0 < length ?r'" by auto
  from select_loop_total [OF this] obtain bl
    where "select_loop ?r' 0 m rs [0..<?n] = Inr bl" by blast
  with assms show ?thesis
    by (simp add: batch_recommend_items_def get_recommendations_from_predictions_def Let_def)
qed

end
